theory Spec2Isabelle
  imports Main "HOL-Library.AList"
begin

section \<open>Values of the query language\<close>

text \<open>
  A query (\<^verbatim>\<open>bento_lib.search.queries.Query\<close>) arrives as decoded JSON: \<^verbatim>\<open>None\<close>, a
  boolean, a number, a string, a list or a dict with string keys. Python's \<^verbatim>\<open>None\<close> is
  the value \<open>JNull\<close>; it also stands for an absent join query, as in the source.
  Numbers are integers here: the functions below never look inside a number.
  A dict is an association list in insertion order.
\<close>

datatype json =
    JNull
  | JBool bool
  | JNum int
  | JStr string
  | JList "json list"
  | JObj "(string \<times> json) list"

datatype py_error = TypeError | KeyError | IndexError | AttributeError | PeerError

type_synonym FieldSpec = "string list"
type_synonym DataTypeAndField = "string \<times> FieldSpec"
type_synonym DictOfDataTypesAndFields = "(string \<times> FieldSpec) list"
type_synonym LinkedFieldSetList = "DictOfDataTypesAndFields list"

section \<open>Rewriting resolves under a prefix\<close>

text \<open>
  \<^verbatim>\<open>len(query[0]) == 0 or query[0][0] != "#"\<close> for the head of a non-empty list.
  \<^verbatim>\<open>len\<close> of \<^verbatim>\<open>None\<close>, a boolean or a number raises \<^verbatim>\<open>TypeError\<close>; a non-empty dict
  has string keys only, so indexing it with \<^verbatim>\<open>0\<close> raises \<^verbatim>\<open>KeyError\<close>.
\<close>

fun head_is_no_tag :: "json \<Rightarrow> py_error + bool" where
  "head_is_no_tag JNull = Inl TypeError"
| "head_is_no_tag (JBool b) = Inl TypeError"
| "head_is_no_tag (JNum n) = Inl TypeError"
| "head_is_no_tag (JStr s) = Inr (case s of [] \<Rightarrow> True | c # cs \<Rightarrow> c \<noteq> CHR ''#'')"
| "head_is_no_tag (JList l) = Inr (case l of [] \<Rightarrow> True | x # xs \<Rightarrow> x \<noteq> JStr ''#'')"
| "head_is_no_tag (JObj kvs) = (case kvs of [] \<Rightarrow> Inr True | kv # r \<Rightarrow> Inl KeyError)"

text \<open>
  \<^verbatim>\<open>_augment_resolves(query, prefix)\<close>; the leading underscore of the source's names is
  dropped throughout. \<open>augment_operands\<close> is the generator over \<^verbatim>\<open>query[1:]\<close>, evaluated
  left to right; the first exception ends it.
\<close>

fun augment_resolves :: "json \<Rightarrow> string list \<Rightarrow> py_error + json"
  and augment_operands :: "json list \<Rightarrow> string list \<Rightarrow> py_error + json list" where
  "augment_resolves JNull prefix = Inr JNull"
| "augment_resolves (JBool b) prefix = Inr (JBool b)"
| "augment_resolves (JNum n) prefix = Inr (JNum n)"
| "augment_resolves (JStr s) prefix = Inr (JStr s)"
| "augment_resolves (JObj kvs) prefix = Inr (JObj kvs)"
| "augment_resolves (JList []) prefix = Inr (JList [])"
| "augment_resolves (JList (h # t)) prefix =
     (case head_is_no_tag h of
        Inl e \<Rightarrow> Inl e
      | Inr True \<Rightarrow> Inr (JList (h # t))
      | Inr False \<Rightarrow>
          if h = JStr ''#resolve'' then Inr (JList (JStr ''#resolve'' # map JStr prefix @ t))
          else (case augment_operands t prefix of
                  Inl e \<Rightarrow> Inl e
                | Inr t' \<Rightarrow> Inr (JList (h # t'))))"
| "augment_operands [] prefix = Inr []"
| "augment_operands (q # qs) prefix =
     (case augment_resolves q prefix of
        Inl e \<Rightarrow> Inl e
      | Inr q' \<Rightarrow> (case augment_operands qs prefix of
                     Inl e \<Rightarrow> Inl e
                   | Inr qs' \<Rightarrow> Inr (q' # qs')))"

section \<open>Array resolve paths\<close>

text \<open>
  \<^verbatim>\<open>f"{path}.{ri}"\<close> formats a string segment as itself. For any other value it calls
  Python's built-in \<^verbatim>\<open>str\<close>, which is no code of this repository: it is the parameter
  \<open>py_str\<close>.
\<close>

fun format_segment :: "(json \<Rightarrow> string) \<Rightarrow> json \<Rightarrow> string" where
  "format_segment py_str (JStr s) = s"
| "format_segment py_str v = py_str v"

text \<open>The loop over \<^verbatim>\<open>query[1:]\<close> of a resolve expression, with its state \<open>r\<close>, \<open>path\<close>.\<close>

fun resolve_path_loop :: "(json \<Rightarrow> string) \<Rightarrow> string list \<Rightarrow> string \<Rightarrow> json list \<Rightarrow> string list" where
  "resolve_path_loop py_str r path [] = r"
| "resolve_path_loop py_str r path (ri # ris) =
     resolve_path_loop py_str
       (if ri = JStr ''[item]'' then r @ [path] else r)
       (path @ ''.'' @ format_segment py_str ri)
       ris"

fun get_array_resolve_paths :: "(json \<Rightarrow> string) \<Rightarrow> json \<Rightarrow> string list" where
  "get_array_resolve_paths py_str (JList (h # e # es)) =
     (if h = JStr ''#resolve'' then resolve_path_loop py_str [] ''_root'' (e # es)
      else concat (map (get_array_resolve_paths py_str) (e # es)))"
| "get_array_resolve_paths py_str q = []"

section \<open>Join query synthesis from linked field sets\<close>

definition linked_fields_to_join_query_fragment :: "DataTypeAndField \<Rightarrow> DataTypeAndField \<Rightarrow> json" where
  "linked_fields_to_join_query_fragment field_1 field_2 =
     JList [JStr ''#eq'',
            JList (JStr ''#resolve'' # JStr (fst field_1) # JStr ''[item]'' # map JStr (snd field_1)),
            JList (JStr ''#resolve'' # JStr (fst field_2) # JStr ''[item]'' # map JStr (snd field_2))]"

text \<open>\<^verbatim>\<open>pairs[0]\<close> of an empty tuple raises \<^verbatim>\<open>IndexError\<close>.\<close>

fun linked_field_set_to_join_query_rec :: "(DataTypeAndField \<times> DataTypeAndField) list \<Rightarrow> py_error + json" where
  "linked_field_set_to_join_query_rec [] = Inl IndexError"
| "linked_field_set_to_join_query_rec [p] = Inr (linked_fields_to_join_query_fragment (fst p) (snd p))"
| "linked_field_set_to_join_query_rec (p # ps) =
     (case linked_field_set_to_join_query_rec ps of
        Inl e \<Rightarrow> Inl e
      | Inr q \<Rightarrow> Inr (JList [JStr ''#and'', linked_fields_to_join_query_fragment (fst p) (snd p), q]))"

text \<open>\<^verbatim>\<open>itertools.combinations(items, 2)\<close>: the pairs of positions \<open>i < j\<close>, in lexicographic order.\<close>

fun combinations2 :: "'a list \<Rightarrow> ('a \<times> 'a) list" where
  "combinations2 [] = []"
| "combinations2 (x # xs) = map (Pair x) xs @ combinations2 xs"

definition surviving_pairs :: "DictOfDataTypesAndFields \<Rightarrow> string set \<Rightarrow> (DataTypeAndField \<times> DataTypeAndField) list" where
  "surviving_pairs fields data_type_set =
     filter (\<lambda>p. fst (fst p) \<in> data_type_set \<and> fst (snd p) \<in> data_type_set) (combinations2 fields)"

text \<open>The result \<^verbatim>\<open>None\<close> is \<open>JNull\<close>: the recursive result is placed in the list as it is.\<close>

fun linked_field_sets_to_join_query :: "LinkedFieldSetList \<Rightarrow> string set \<Rightarrow> py_error + json" where
  "linked_field_sets_to_join_query [] data_type_set = Inr JNull"
| "linked_field_sets_to_join_query (lfs # rest) data_type_set =
     (let pairs = surviving_pairs lfs data_type_set in
      if pairs = [] then Inr JNull
      else if rest = [] then linked_field_set_to_join_query_rec pairs
      else (case linked_field_set_to_join_query_rec pairs of
              Inl e \<Rightarrow> Inl e
            | Inr q \<Rightarrow> (case linked_field_sets_to_join_query rest data_type_set of
                          Inl e \<Rightarrow> Inl e
                        | Inr q' \<Rightarrow> Inr (JList [JStr ''#and'', q, q']))))"

section \<open>Combining the join query with the data type queries\<close>

text \<open>The loop over \<^verbatim>\<open>data_type_queries.items()\<close>, in the dict's order.\<close>

fun combine_loop :: "json \<Rightarrow> (string \<times> json) list \<Rightarrow> py_error + json" where
  "combine_loop join_query [] = Inr join_query"
| "combine_loop join_query ((dt, q) # rest) =
     (case augment_resolves q [dt, ''[item]''] of
        Inl e \<Rightarrow> Inl e
      | Inr q' \<Rightarrow> combine_loop (JList [JStr ''#and'', q', join_query]) rest)"

definition combine_join_and_data_type_queries :: "json \<Rightarrow> (string \<times> json) list \<Rightarrow> py_error + json" where
  "combine_join_and_data_type_queries join_query data_type_queries =
     (if join_query = JNull then Inr JNull else combine_loop join_query data_type_queries)"

section \<open>The dataset, its tables and the peers\<close>

text \<open>
  The dicts the orchestrator reads by fixed keys are records: a table ownership
  (\<^verbatim>\<open>service_artifact\<close>, \<^verbatim>\<open>table_id\<close>), a table record (\<^verbatim>\<open>data_type\<close>, \<^verbatim>\<open>schema\<close>,
  \<^verbatim>\<open>id\<close>), a linked field set (\<^verbatim>\<open>fields\<close>, here \<open>lfs_fields\<close>), the dataset (\<^verbatim>\<open>table_ownership\<close> and the
  optional \<^verbatim>\<open>linked_field_sets\<close>) and the object schema (\<^verbatim>\<open>properties\<close>).
\<close>

record table_ownership =
  service_artifact :: string
  table_id :: string

record table_record =
  data_type :: string
  schema :: json
  record_id :: string

record linked_field_set =
  lfs_fields :: DictOfDataTypesAndFields

record dataset =
  table_ownerships :: "table_ownership list"
  linked_field_sets :: "linked_field_set list option"

record object_schema =
  properties :: "(string \<times> json) list"

text \<open>
  A search request: the path fragment \<^verbatim>\<open>api/{service_artifact}[/private]/tables/{id}/search\<close>
  and the body \<^verbatim>\<open>{"query": ...}\<close>, by their parts.
\<close>

record search_request =
  req_service_artifact :: string
  req_private :: bool
  req_table_id :: string
  req_query :: json

text \<open>
  \<^verbatim>\<open>peer_fetch\<close> is outside the repository's sources here: the peers are two functions,
  the answer to the GET of a table's definition and the answer to the POST of a search.
  \<open>Inl\<close> is the exception a failed fetch raises.
\<close>

record peers =
  table_definition :: "table_ownership \<Rightarrow> py_error + table_record"
  table_search :: "search_request \<Rightarrow> py_error + json"

definition get_dataset_linked_field_sets :: "dataset \<Rightarrow> LinkedFieldSetList" where
  "get_dataset_linked_field_sets ds =
     map lfs_fields
       (filter (\<lambda>lfs. length (lfs_fields lfs) > 1)
          (case linked_field_sets ds of None \<Rightarrow> [] | Some l \<Rightarrow> l))"

section \<open>The worker pools\<close>

text \<open>
  The workers are cooperative coroutines over one queue; they are suspended only at a
  fetch. The model runs the queue in its order, one item after the other. What a pool
  leaves behind when a fetch raises is not modelled: the exception reaches the
  orchestrator's \<^verbatim>\<open>await\<close> of the pool, and the call does not return a value.
\<close>

fun fetch_table_definition_worker ::
  "peers \<Rightarrow> (table_ownership \<times> table_record) list \<Rightarrow> table_ownership list
     \<Rightarrow> py_error + (table_ownership \<times> table_record) list" where
  "fetch_table_definition_worker ps table_ownerships_and_records [] = Inr table_ownerships_and_records"
| "fetch_table_definition_worker ps table_ownerships_and_records (t # ts) =
     (case table_definition ps t of
        Inl e \<Rightarrow> Inl e
      | Inr r \<Rightarrow> fetch_table_definition_worker ps (table_ownerships_and_records @ [(t, r)]) ts)"

text \<open>Python's truth value of a decoded JSON value.\<close>

fun truthy :: "json \<Rightarrow> bool" where
  "truthy JNull = False"
| "truthy (JBool b) = b"
| "truthy (JNum n) = (n \<noteq> 0)"
| "truthy (JStr s) = (s \<noteq> [])"
| "truthy (JList l) = (l \<noteq> [])"
| "truthy (JObj kvs) = (kvs \<noteq> [])"

text \<open>\<^verbatim>\<open>r["results"]\<close>: only a dict can be indexed by a string.\<close>

fun py_getitem :: "json \<Rightarrow> string \<Rightarrow> py_error + json" where
  "py_getitem (JObj kvs) k = (case map_of kvs k of None \<Rightarrow> Inl KeyError | Some v \<Rightarrow> Inr v)"
| "py_getitem v k = Inl TypeError"

text \<open>
  \<^verbatim>\<open>old.extend(new)\<close>: only a list has \<^verbatim>\<open>extend\<close>; it takes any iterable (a string gives
  its characters, a dict its keys).
\<close>

fun py_extend :: "json \<Rightarrow> json \<Rightarrow> py_error + json" where
  "py_extend (JList xs) (JList ys) = Inr (JList (xs @ ys))"
| "py_extend (JList xs) (JStr s) = Inr (JList (xs @ map (\<lambda>c. JStr [c]) s))"
| "py_extend (JList xs) (JObj kvs) = Inr (JList (xs @ map (\<lambda>kv. JStr (fst kv)) kvs))"
| "py_extend (JList xs) v = Inl TypeError"
| "py_extend old v = Inl AttributeError"

text \<open>
  One item of \<^verbatim>\<open>_table_search_worker\<close>, up to its fetch: the schema entry for the table's
  data type, and the request to send (\<open>None\<close> where the source says \<^verbatim>\<open>continue\<close>).
\<close>

definition table_search_prepare ::
  "json \<Rightarrow> (string \<times> json) list \<Rightarrow> bool \<Rightarrow> object_schema \<Rightarrow> table_ownership \<times> table_record
     \<Rightarrow> object_schema \<times> search_request option" where
  "table_search_prepare dataset_join_query data_type_queries include_internal_results
       dataset_object_schema table_pair =
     (let table_ownership = fst table_pair;
          table_record = snd table_pair;
          table_data_type = data_type table_record;
          querying = map_of data_type_queries table_data_type;
          private = (dataset_join_query \<noteq> JNull \<or> include_internal_results);
          schema' =
            (if dataset_join_query \<noteq> JNull \<and> map_of (properties dataset_object_schema) table_data_type = None
             then dataset_object_schema\<lparr>properties :=
                    AList.update table_data_type
                      (JObj [(''type'', JStr ''array''),
                             (''items'', if querying \<noteq> None then schema table_record else JObj [])])
                      (properties dataset_object_schema)\<rparr>
             else dataset_object_schema)
      in case querying of
           None \<Rightarrow> (schema', None)
         | Some q \<Rightarrow>
             (schema',
              Some \<lparr>req_service_artifact = service_artifact table_ownership,
                    req_private = private,
                    req_table_id = record_id table_record,
                    req_query = q\<rparr>))"

text \<open>The same item after its fetch returned \<open>r\<close>: the update of \<^verbatim>\<open>dataset_results\<close>.\<close>

definition table_search_accumulate ::
  "bool \<Rightarrow> string \<Rightarrow> json \<Rightarrow> (string \<times> json) list \<Rightarrow> py_error + (string \<times> json) list" where
  "table_search_accumulate private table_data_type r dataset_results =
     (case (if private then py_getitem r ''results''
            else Inr (JList (if truthy r then [r] else []))) of
        Inl e \<Rightarrow> Inl e
      | Inr results \<Rightarrow>
          (case map_of dataset_results table_data_type of
             None \<Rightarrow> Inr (AList.update table_data_type results dataset_results)
           | Some old \<Rightarrow>
               (case py_extend old results of
                  Inl e \<Rightarrow> Inl e
                | Inr new \<Rightarrow> Inr (AList.update table_data_type new dataset_results))))"

record search_state =
  st_schema :: object_schema
  st_results :: "(string \<times> json) list"
  st_requests :: "search_request list"

fun table_search_worker ::
  "peers \<Rightarrow> json \<Rightarrow> (string \<times> json) list \<Rightarrow> bool \<Rightarrow> search_state
     \<Rightarrow> (table_ownership \<times> table_record) list \<Rightarrow> py_error + search_state" where
  "table_search_worker ps dataset_join_query data_type_queries include_internal_results st [] = Inr st"
| "table_search_worker ps dataset_join_query data_type_queries include_internal_results st
       (table_pair # queue) =
     (case table_search_prepare dataset_join_query data_type_queries include_internal_results
             (st_schema st) table_pair of
        (schema', None) \<Rightarrow>
          table_search_worker ps dataset_join_query data_type_queries include_internal_results
            (st\<lparr>st_schema := schema'\<rparr>) queue
      | (schema', Some req) \<Rightarrow>
          (case table_search ps req of
             Inl e \<Rightarrow> Inl e
           | Inr r \<Rightarrow>
               (case table_search_accumulate (req_private req) (data_type (snd table_pair)) r
                       (st_results st) of
                  Inl e \<Rightarrow> Inl e
                | Inr results' \<Rightarrow>
                    table_search_worker ps dataset_join_query data_type_queries include_internal_results
                      \<lparr>st_schema = schema', st_results = results',
                       st_requests = st_requests st @ [req]\<rparr>
                      queue)))"

section \<open>The orchestrator\<close>

text \<open>
  The loop over the queried data types that no fetched table has. \<open>Inl\<close> is the early
  \<^verbatim>\<open>return\<close>, with the schema as the loop left it; \<open>Inr\<close> is the loop's end, with the
  schema and \<^verbatim>\<open>excluded_data_types\<close>.
\<close>

fun no_table_loop ::
  "object_schema \<Rightarrow> string set \<Rightarrow> (string \<times> json) list \<Rightarrow> object_schema + object_schema \<times> string set" where
  "no_table_loop dataset_object_schema excluded_data_types [] =
     Inr (dataset_object_schema, excluded_data_types)"
| "no_table_loop dataset_object_schema excluded_data_types ((dt, dt_q) # rest) =
     (if dt_q \<noteq> JBool True then Inl dataset_object_schema
      else no_table_loop
             (dataset_object_schema\<lparr>properties :=
                AList.update dt (JObj [(''type'', JStr ''array'')]) (properties dataset_object_schema)\<rparr>)
             (insert dt excluded_data_types)
             rest)"

text \<open>
  What a call leaves: the returned triple, and the two effects a caller can observe, the
  schema object after the call and the search requests sent to the peers.
\<close>

record run_result =
  dataset_results :: "(string \<times> json) list"
  final_join_query :: json
  ic_paths_to_filter :: "string list"
  schema_after :: object_schema
  requests_sent :: "search_request list"

text \<open>
  \<^verbatim>\<open>run_search_on_dataset\<close>. The \<^verbatim>\<open>auth_header\<close> is only handed to \<^verbatim>\<open>peer_fetch\<close> and is
  left out. An exception inside the \<^verbatim>\<open>try\<close> block passes through \<^verbatim>\<open>finally\<close> and leaves
  the call.
\<close>

definition run_search_on_dataset ::
  "(json \<Rightarrow> string) \<Rightarrow> peers \<Rightarrow> object_schema \<Rightarrow> dataset \<Rightarrow> json \<Rightarrow> (string \<times> json) list \<Rightarrow> bool
     \<Rightarrow> py_error + run_result" where
  "run_search_on_dataset py_str ps dataset_object_schema ds join_query data_type_queries
       include_internal_results =
     (let lfs = get_dataset_linked_field_sets ds in
      case fetch_table_definition_worker ps [] (table_ownerships ds) of
        Inl e \<Rightarrow> Inl e
      | Inr table_ownerships_and_records \<Rightarrow>
          (let table_data_types = (\<lambda>t. data_type (snd t)) ` set table_ownerships_and_records in
           case no_table_loop dataset_object_schema {}
                  (filter (\<lambda>dt2. fst dt2 \<notin> table_data_types) data_type_queries) of
             Inl schema' \<Rightarrow>
               Inr \<lparr>dataset_results = map (\<lambda>dt2. (fst dt2, JList [])) data_type_queries,
                    final_join_query = JNull,
                    ic_paths_to_filter = [],
                    schema_after = schema',
                    requests_sent = []\<rparr>
           | Inr (schema', excluded_data_types) \<Rightarrow>
               (case (if join_query = JNull
                      then linked_field_sets_to_join_query lfs
                             (fst ` set data_type_queries - excluded_data_types)
                      else Inr join_query) of
                  Inl e \<Rightarrow> Inl e
                | Inr join_query1 \<Rightarrow>
                    (let paths = (if include_internal_results
                                  then get_array_resolve_paths py_str join_query1 else []) in
                     case combine_join_and_data_type_queries join_query1 data_type_queries of
                       Inl e \<Rightarrow> Inl e
                     | Inr join_query2 \<Rightarrow>
                         (case table_search_worker ps join_query2 data_type_queries
                                 include_internal_results
                                 \<lparr>st_schema = schema', st_results = [], st_requests = []\<rparr>
                                 table_ownerships_and_records of
                            Inl e \<Rightarrow> Inl e
                          | Inr st \<Rightarrow>
                              Inr \<lparr>dataset_results = st_results st,
                                   final_join_query = join_query2,
                                   ic_paths_to_filter = paths,
                                   schema_after = st_schema st,
                                   requests_sent = st_requests st\<rparr>)))))"

section \<open>Notions used to state the properties\<close>

text \<open>
  A head that \<^verbatim>\<open>len\<close> and indexing accept: a string, a list or an empty dict.
  \<open>heads_sized\<close> asks it of the head of a list and of the head of every list among
  its operands, at any depth.
\<close>

fun sized_head :: "json \<Rightarrow> bool" where
  "sized_head (JStr s) = True"
| "sized_head (JList l) = True"
| "sized_head (JObj kvs) = (kvs = [])"
| "sized_head v = False"

fun heads_sized :: "json \<Rightarrow> bool" where
  "heads_sized (JList (h # t)) = (sized_head h \<and> list_all heads_sized t)"
| "heads_sized q = True"

text \<open>
  The dotted string of a sequence of path segments, rooted at \<^verbatim>\<open>_root\<close>: every segment of
  the sequence is in it, an array-item marker like any other.
\<close>

definition dotted_path :: "(json \<Rightarrow> string) \<Rightarrow> json list \<Rightarrow> string" where
  "dotted_path py_str segments = ''_root'' @ concat (map (\<lambda>ri. ''.'' @ format_segment py_str ri) segments)"

text \<open>
  The resolve expressions that occur in a query: the lists headed by \<^verbatim>\<open>#resolve\<close>, found
  through the elements of every other list. \<open>scoped_resolve\<close> is the resolve of one entry
  of a linked field set: its data type, the array-item marker, its field path.
\<close>

fun resolve_nodes :: "json \<Rightarrow> json list" where
  "resolve_nodes (JList (h # t)) =
     (if h = JStr ''#resolve'' then [JList (h # t)] else concat (map resolve_nodes (h # t)))"
| "resolve_nodes q = []"

definition scoped_resolve :: "DataTypeAndField \<Rightarrow> json" where
  "scoped_resolve f = JList (JStr ''#resolve'' # JStr (fst f) # JStr ''[item]'' # map JStr (snd f))"

section \<open>Properties of the resolve rewriting\<close>

lemma augment_isl_any_prefix:
  "isl (augment_resolves q p1) = isl (augment_resolves q p2)"
  "isl (augment_operands qs p1) = isl (augment_operands qs p2)"
proof (induction q p1 and qs p1 rule: augment_resolves_augment_operands.induct)
  case (7 h t prefix)
  show ?case
  proof (cases "head_is_no_tag h")
    case (Inl e')
    then show ?thesis by simp
  next
    case (Inr b)
    show ?thesis
    proof (cases "b \<or> h = JStr ''#resolve''")
      case True
      with Inr show ?thesis by auto
    next
      case False
      with 7[OF Inr] have "isl (augment_operands t prefix) = isl (augment_operands t p2)" by simp
      with Inr False show ?thesis
        by (cases "augment_operands t prefix"; cases "augment_operands t p2") simp_all
    qed
  qed
next
  case (9 q qs prefix)
  show ?case
  proof (cases "augment_resolves q prefix")
    case (Inl e')
    with 9(1) show ?thesis by (cases "augment_resolves q p2") simp_all
  next
    case (Inr q')
    from 9(2)[OF Inr] 9(1) Inr show ?thesis
      by (cases "augment_resolves q p2"; cases "augment_operands qs prefix";
          cases "augment_operands qs p2") simp_all
  qed
qed simp_all

lemma augment_operands_length:
  "augment_operands qs p = Inr qs' \<Longrightarrow> length qs' = length qs"
proof (induction qs arbitrary: qs')
  case Nil
  then show ?case by simp
next
  case (Cons q qs)
  then show ?case by (auto split: sum.splits)
qed

lemma augment_shape:
  assumes "augment_resolves (JList (h # t)) p = Inr r" and "h \<noteq> JStr ''#resolve''"
  shows "\<exists>t'. r = JList (h # t') \<and> length t' = length t"
proof (cases "head_is_no_tag h")
  case (Inl e)
  with assms show ?thesis by simp
next
  case (Inr b)
  show ?thesis
  proof (cases b)
    case True
    with Inr assms show ?thesis by auto
  next
    case False
    with Inr assms obtain t' where t': "augment_operands t p = Inr t'" and r: "r = JList (h # t')"
      by (auto split: sum.splits)
    from augment_operands_length[OF t'] r show ?thesis by simp
  qed
qed

lemma heads_sized_total:
  "heads_sized q \<Longrightarrow> \<exists>q'. augment_resolves q p = Inr q'"
  "list_all heads_sized qs \<Longrightarrow> \<exists>qs'. augment_operands qs p = Inr qs'"
proof (induction q p and qs p rule: augment_resolves_augment_operands.induct)
  case (7 h t prefix)
  from 7(2) have sh: "sized_head h" and ht: "list_all heads_sized t" by simp_all
  from sh obtain b where b: "head_is_no_tag h = Inr b"
    by (cases h) (auto split: list.splits)
  show ?case
  proof (cases "b \<or> h = JStr ''#resolve''")
    case True
    with b show ?thesis by auto
  next
    case False
    with 7(1)[OF b] ht obtain t' where "augment_operands t prefix = Inr t'" by auto
    with b False show ?thesis by simp
  qed
next
  case (9 q qs prefix)
  from 9(3) have hq: "heads_sized q" and hqs: "list_all heads_sized qs" by simp_all
  from 9(1)[OF hq] obtain q' where q': "augment_resolves q prefix = Inr q'" by blast
  from 9(2)[OF q' hqs] obtain qs' where "augment_operands qs prefix = Inr qs'" by blast
  with q' show ?case by simp
qed simp_all

lemma resolve_path_loop_indices:
  "resolve_path_loop py_str r path ris =
     r @ map (\<lambda>i. path @ concat (map (\<lambda>ri. ''.'' @ format_segment py_str ri) (take i ris)))
           (filter (\<lambda>i. ris ! i = JStr ''[item]'') [0..<length ris])"
proof (induction ris arbitrary: r path)
  case Nil
  then show ?case by simp
next
  case (Cons ri ris)
  have up: "[0..<length (ri # ris)] = 0 # map Suc [0..<length ris]"
    by (simp add: upt_conv_Cons map_Suc_upt del: upt_Suc)
  show ?case
    unfolding up by (simp add: Cons.IH filter_map comp_def)
qed


lemma augment_compose:
  "(case augment_resolves q pa of Inl e \<Rightarrow> Inl e | Inr q' \<Rightarrow> augment_resolves q' pb) = augment_resolves q (pb @ pa)"
  "(case augment_operands qs pa of Inl e \<Rightarrow> Inl e | Inr qs' \<Rightarrow> augment_operands qs' pb) = augment_operands qs (pb @ pa)"
proof (induction q pa and qs pa rule: augment_resolves_augment_operands.induct)
  case (7 h t prefix)
  show ?case
  proof (cases "head_is_no_tag h")
    case (Inl e)
    then show ?thesis by simp
  next
    case (Inr b)
    show ?thesis
    proof (cases b)
      case True
      with Inr show ?thesis by simp
    next
      case nb: False
      show ?thesis
      proof (cases "h = JStr ''#resolve''")
        case True
        then show ?thesis by simp
      next
        case nr: False
        have IH: "(case augment_operands t prefix of Inl e \<Rightarrow> Inl e
                   | Inr qs' \<Rightarrow> augment_operands qs' pb) = augment_operands t (pb @ prefix)"
          using 7 Inr nb nr by simp
        show ?thesis
        proof (cases "augment_operands t prefix")
          case l: (Inl e)
          have "augment_operands t (pb @ prefix) = Inl e" using IH l by simp
          then show ?thesis using l Inr nb nr by simp
        next
          case r: (Inr t')
          have "augment_operands t' pb = augment_operands t (pb @ prefix)" using IH r by simp
          then show ?thesis using r Inr nb nr by (simp split: sum.splits)
        qed
      qed
    qed
  qed
next
  case (9 q qs prefix)
  show ?case
  proof (cases "augment_resolves q prefix")
    case l: (Inl e)
    have "augment_resolves q (pb @ prefix) = Inl e" using 9(1) l by simp
    then show ?thesis using l by simp
  next
    case r: (Inr q')
    have a: "augment_resolves q' pb = augment_resolves q (pb @ prefix)" using 9(1) r by simp
    have b: "(case augment_operands qs prefix of Inl e \<Rightarrow> Inl e
                   | Inr qs' \<Rightarrow> augment_operands qs' pb) = augment_operands qs (pb @ prefix)"
      using 9(2)[OF r] .
    show ?thesis
    proof (cases "augment_operands qs prefix")
      case l2: (Inl e)
      have "augment_operands qs (pb @ prefix) = Inl e" using b l2 by simp
      moreover obtain q2 where "augment_resolves q (pb @ prefix) = Inr q2"
        using augment_isl_any_prefix(1)[of q prefix "pb @ prefix"] r
        by (cases "augment_resolves q (pb @ prefix)") simp_all
      ultimately show ?thesis using r l2 by simp
    next
      case r2: (Inr qs')
      have "augment_operands qs' pb = augment_operands qs (pb @ prefix)" using b r2 by simp
      then show ?thesis using r r2 a[symmetric] by (simp split: sum.splits)
    qed
  qed
qed simp_all

text \<open>
  Claim C5, as stated, fails: rewriting with \<open>[a]\<close> and then with \<open>[b]\<close> gives the path
  \<open>b, a, x\<close>, while one rewriting with \<open>[a] @ [b]\<close> gives \<open>a, b, x\<close>.
\<close>

theorem augment_resolves_twice_counterexample:
  "(case augment_resolves (JList [JStr ''#resolve'', JStr ''x'']) [''a''] of
      Inl e \<Rightarrow> Inl e
    | Inr q' \<Rightarrow> augment_resolves q' [''b''])
   \<noteq> augment_resolves (JList [JStr ''#resolve'', JStr ''x'']) ([''a''] @ [''b''])"
  by simp

text \<open>
  Claim C5, amended: rewriting with \<open>pa\<close> and then with \<open>pb\<close> is one rewriting with
  \<open>pb @ pa\<close>, the later prefix in front (an exception of the first rewriting is the
  exception of both sides). And whenever the rewriting of a list whose head is not
  \<^verbatim>\<open>#resolve\<close> returns, the result is a list with the same head and as many operands.
\<close>

theorem augment_resolves_twice:
  "(case augment_resolves q pa of Inl e \<Rightarrow> Inl e | Inr q' \<Rightarrow> augment_resolves q' pb)
     = augment_resolves q (pb @ pa)
   \<and> (\<forall>h t r. q = JList (h # t) \<and> h \<noteq> JStr ''#resolve'' \<and> augment_resolves q pa = Inr r
          \<longrightarrow> (\<exists>t'. r = JList (h # t') \<and> length t' = length t))"
  using augment_compose(1)[where q = q and pa = pa and pb = pb] augment_shape[where p = pa] by blast

text \<open>The amended C5 at a conjunction over a resolve and a literal.\<close>

theorem augment_resolves_twice_witness:
  "(case augment_resolves (JList [JStr ''#and'', JList [JStr ''#resolve'', JStr ''x''], JBool True]) [''A'', ''[item]''] of
      Inl e \<Rightarrow> Inl e
    | Inr q' \<Rightarrow> augment_resolves q' [''B''])
     = Inr (JList [JStr ''#and'', JList [JStr ''#resolve'', JStr ''B'', JStr ''A'', JStr ''[item]'', JStr ''x''], JBool True])
   \<and> (\<exists>t'. augment_resolves (JList [JStr ''#and'', JList [JStr ''#resolve'', JStr ''x''], JBool True]) [''A'', ''[item]'']
               = Inr (JList (JStr ''#and'' # t')) \<and> length t' = 2)"
  using augment_resolves_twice[where q = "JList [JStr ''#and'', JList [JStr ''#resolve'', JStr ''x''], JBool True]"
          and pa = "[''A'', ''[item]'']" and pb = "[''B'']"]
  by simp

text \<open>
  Claim C6, as stated, fails: on a list whose head is a number, \<^verbatim>\<open>len(query[0])\<close> raises
  \<^verbatim>\<open>TypeError\<close>.
\<close>

theorem augment_resolves_number_head_counterexample:
  "augment_resolves (JList [JNum 5, JStr ''x'']) [''A'', ''[item]''] = Inl TypeError"
  by simp

text \<open>
  Claim C6, amended: the rewriting returns a value for every literal, every dict, the empty
  list, and every list whose head, like the head of every list among its operands at any
  depth, is a string, a list or an empty dict.
\<close>

theorem augment_resolves_total_on_sized_heads:
  "heads_sized q \<Longrightarrow> \<exists>q'. augment_resolves q p = Inr q'"
  by (rule heads_sized_total(1))

text \<open>The amended C6 at a list whose head is a list, with a nested empty list and a number.\<close>

theorem augment_resolves_total_on_sized_heads_witness:
  "heads_sized (JList [JList [JStr ''#''], JList [JStr ''#not'', JList []], JNum 3])
   \<and> (\<exists>q'. augment_resolves (JList [JList [JStr ''#''], JList [JStr ''#not'', JList []], JNum 3]) [''A''] = Inr q')"
proof -
  have h: "heads_sized (JList [JList [JStr ''#''], JList [JStr ''#not'', JList []], JNum 3])" by simp
  show ?thesis using h augment_resolves_total_on_sized_heads[OF h, of "[''A'']"] by blast
qed

section \<open>Properties of the array resolve paths\<close>

text \<open>
  Claim C2, as stated, fails at its second example: the path appended at the second marker
  contains the first marker.
\<close>

theorem get_array_resolve_paths_two_markers_counterexample:
  "get_array_resolve_paths (\<lambda>v. [])
     (JList [JStr ''#resolve'', JStr ''A'', JStr ''[item]'', JStr ''x'', JStr ''[item]'', JStr ''y''])
   \<noteq> [''_root.A'', ''_root.A.x'']"
  by simp

text \<open>
  Claim C2, amended: for a resolve expression, the result has one path for each position of
  an array-item marker, in order, and that path is the dotted string of all the segments
  before that position, earlier markers included. So the two examples give
  \<open>[_root.A]\<close> and \<open>[_root.A, _root.A.[item].x]\<close>.
\<close>

theorem get_array_resolve_paths_resolve:
  "get_array_resolve_paths py_str (JList (JStr ''#resolve'' # segments))
     = map (\<lambda>i. dotted_path py_str (take i segments))
         (filter (\<lambda>i. segments ! i = JStr ''[item]'') [0..<length segments])
   \<and> get_array_resolve_paths py_str (JList [JStr ''#resolve'', JStr ''A'', JStr ''[item]'', JStr ''x''])
       = [''_root.A'']
   \<and> get_array_resolve_paths py_str
         (JList [JStr ''#resolve'', JStr ''A'', JStr ''[item]'', JStr ''x'', JStr ''[item]'', JStr ''y''])
       = [''_root.A'', ''_root.A.[item].x'']"
proof -
  have loop: "resolve_path_loop py_str [] ''_root'' segments
     = map (\<lambda>i. dotted_path py_str (take i segments))
         (filter (\<lambda>i. segments ! i = JStr ''[item]'') [0..<length segments])"
    unfolding resolve_path_loop_indices[of py_str "[]" "''_root''" segments] dotted_path_def
    by simp
  have "get_array_resolve_paths py_str (JList (JStr ''#resolve'' # segments))
     = resolve_path_loop py_str [] ''_root'' segments"
    by (cases segments) (simp_all del: resolve_path_loop.simps(2))
  with loop show ?thesis by simp
qed

section \<open>Properties of the join query synthesis\<close>

lemma combinations2_members:
  "p \<in> set (combinations2 xs) \<Longrightarrow> fst p \<in> set xs \<and> snd p \<in> set xs"
  by (induction xs) auto

lemma surviving_pairs_members:
  assumes "p \<in> set (surviving_pairs lfs dts)"
  shows "fst p \<in> set lfs \<and> snd p \<in> set lfs \<and> fst (fst p) \<in> dts \<and> fst (snd p) \<in> dts"
  using assms combinations2_members[of p lfs] by (auto simp: surviving_pairs_def)

lemma resolve_nodes_fragment:
  "set (resolve_nodes (linked_fields_to_join_query_fragment f g)) = {scoped_resolve f, scoped_resolve g}"
  by (auto simp: linked_fields_to_join_query_fragment_def scoped_resolve_def)

lemma rec_returns:
  "pairs \<noteq> [] \<Longrightarrow> \<exists>q. linked_field_set_to_join_query_rec pairs = Inr q"
  by (induction pairs rule: linked_field_set_to_join_query_rec.induct) auto

lemma rec_resolves:
  "linked_field_set_to_join_query_rec pairs = Inr q \<Longrightarrow> r \<in> set (resolve_nodes q) \<Longrightarrow>
     \<exists>p \<in> set pairs. r = scoped_resolve (fst p) \<or> r = scoped_resolve (snd p)"
proof (induction pairs arbitrary: q rule: linked_field_set_to_join_query_rec.induct)
  case 1
  then show ?case by simp
next
  case (2 p)
  then show ?case using resolve_nodes_fragment[of "fst p" "snd p"] by auto
next
  case (3 p p' ps)
  from 3(2) obtain q' where q': "linked_field_set_to_join_query_rec (p' # ps) = Inr q'"
    and q: "q = JList [JStr ''#and'', linked_fields_to_join_query_fragment (fst p) (snd p), q']"
    by (auto split: sum.splits)
  from 3(3) q have "r \<in> set (resolve_nodes (linked_fields_to_join_query_fragment (fst p) (snd p)))
      \<or> r \<in> set (resolve_nodes q')" by auto
  then show ?case
  proof
    assume "r \<in> set (resolve_nodes (linked_fields_to_join_query_fragment (fst p) (snd p)))"
    then show ?thesis using resolve_nodes_fragment[of "fst p" "snd p"] by auto
  next
    assume "r \<in> set (resolve_nodes q')"
    from 3(1)[OF q' this] show ?thesis by auto
  qed
qed

lemma build_returns:
  "\<exists>q. linked_field_sets_to_join_query lfss dts = Inr q"
proof (induction lfss)
  case Nil
  then show ?case by simp
next
  case (Cons lfs rest)
  show ?case
  proof (cases "surviving_pairs lfs dts = []")
    case True
    then show ?thesis by simp
  next
    case False
    from rec_returns[OF False] obtain q where "linked_field_set_to_join_query_rec (surviving_pairs lfs dts) = Inr q" by blast
    with False Cons show ?thesis by (auto simp: Let_def)
  qed
qed

lemma build_resolves:
  "linked_field_sets_to_join_query lfss dts = Inr q \<Longrightarrow> r \<in> set (resolve_nodes q) \<Longrightarrow>
     \<exists>lfs f. lfs \<in> set lfss \<and> f \<in> set lfs \<and> fst f \<in> dts \<and> r = scoped_resolve f"
proof (induction lfss arbitrary: q)
  case Nil
  then show ?case by simp
next
  case (Cons lfs rest)
  let ?pairs = "surviving_pairs lfs dts"
  have here: "\<exists>f. f \<in> set lfs \<and> fst f \<in> dts \<and> r = scoped_resolve f"
    if "linked_field_set_to_join_query_rec ?pairs = Inr q0" "r \<in> set (resolve_nodes q0)" for q0
  proof -
    from rec_resolves[OF that] obtain p where "p \<in> set ?pairs"
      "r = scoped_resolve (fst p) \<or> r = scoped_resolve (snd p)" by blast
    with surviving_pairs_members[of p lfs dts] show ?thesis by blast
  qed
  show ?case
  proof (cases "?pairs = []")
    case True
    with Cons.prems show ?thesis by simp
  next
    case ne: False
    show ?thesis
    proof (cases "rest = []")
      case True
      with ne Cons.prems have "linked_field_set_to_join_query_rec ?pairs = Inr q" by (simp add: Let_def)
      from here[OF this Cons.prems(2)] show ?thesis by auto
    next
      case False
      with ne Cons.prems(1) obtain q0 q1 where q0: "linked_field_set_to_join_query_rec ?pairs = Inr q0"
        and q1: "linked_field_sets_to_join_query rest dts = Inr q1"
        and q: "q = JList [JStr ''#and'', q0, q1]"
        by (auto simp: Let_def split: sum.splits)
      from Cons.prems(2) q have "r \<in> set (resolve_nodes q0) \<or> r \<in> set (resolve_nodes q1)" by auto
      then show ?thesis
      proof
        assume "r \<in> set (resolve_nodes q0)"
        from here[OF q0 this] show ?thesis by auto
      next
        assume "r \<in> set (resolve_nodes q1)"
        from Cons.IH[OF q1 this] show ?thesis by auto
      qed
    qed
  qed
qed

text \<open>
  Claim C3 at two linked field sets of which the second has no pair among the queried data
  types \<open>A\<close>, \<open>B\<close>: the second set is not dropped, its \<^verbatim>\<open>None\<close> is the second operand of
  the conjunction.
\<close>

theorem linked_field_sets_to_join_query_null_operand:
  "linked_field_sets_to_join_query
     [[(''A'', [''x'']), (''B'', [''y''])], [(''A'', [''z'']), (''C'', [''w''])]] {''A'', ''B''}
   = Inr (JList [JStr ''#and'',
                 JList [JStr ''#eq'',
                        JList [JStr ''#resolve'', JStr ''A'', JStr ''[item]'', JStr ''x''],
                        JList [JStr ''#resolve'', JStr ''B'', JStr ''[item]'', JStr ''y'']],
                 JNull])"
  by (simp add: surviving_pairs_def linked_fields_to_join_query_fragment_def)

text \<open>
  Claim C9: the synthesis never raises, and every resolve expression in its result is the
  resolve of an entry of one of the linked field sets whose data type is in the data type
  set: the data type, then the array-item marker, then the entry's field path.
\<close>

theorem join_query_resolves_are_scoped:
  "(\<exists>q. linked_field_sets_to_join_query lfss dts = Inr q)
   \<and> (\<forall>q r. linked_field_sets_to_join_query lfss dts = Inr q \<and> r \<in> set (resolve_nodes q)
        \<longrightarrow> (\<exists>lfs dt field. lfs \<in> set lfss \<and> (dt, field) \<in> set lfs \<and> dt \<in> dts
               \<and> r = JList (JStr ''#resolve'' # JStr dt # JStr ''[item]'' # map JStr field)))"
proof (intro conjI allI impI)
  show "\<exists>q. linked_field_sets_to_join_query lfss dts = Inr q" by (rule build_returns)
next
  fix q r
  assume "linked_field_sets_to_join_query lfss dts = Inr q \<and> r \<in> set (resolve_nodes q)"
  then obtain lfs f where "lfs \<in> set lfss" "f \<in> set lfs" "fst f \<in> dts" "r = scoped_resolve f"
    using build_resolves by blast
  then show "\<exists>lfs dt field. lfs \<in> set lfss \<and> (dt, field) \<in> set lfs \<and> dt \<in> dts
               \<and> r = JList (JStr ''#resolve'' # JStr dt # JStr ''[item]'' # map JStr field)"
    by (cases f) (auto simp: scoped_resolve_def)
qed

text \<open>Claim C9 at one linked field set over \<open>A\<close>, \<open>B\<close>, \<open>C\<close> with \<open>A\<close> and \<open>B\<close> queried.\<close>

theorem join_query_resolves_are_scoped_witness:
  "linked_field_sets_to_join_query [[(''A'', [''x'']), (''B'', [''y'']), (''C'', [''z''])]] {''A'', ''B''}
     = Inr (JList [JStr ''#eq'',
                   JList [JStr ''#resolve'', JStr ''A'', JStr ''[item]'', JStr ''x''],
                   JList [JStr ''#resolve'', JStr ''B'', JStr ''[item]'', JStr ''y'']])
   \<and> JList [JStr ''#resolve'', JStr ''B'', JStr ''[item]'', JStr ''y'']
       \<in> set (resolve_nodes (JList [JStr ''#eq'',
                   JList [JStr ''#resolve'', JStr ''A'', JStr ''[item]'', JStr ''x''],
                   JList [JStr ''#resolve'', JStr ''B'', JStr ''[item]'', JStr ''y'']]))
   \<and> (\<exists>lfs dt field. lfs \<in> set [[(''A'', [''x'']), (''B'', [''y'']), (''C'', [''z''])]]
          \<and> (dt, field) \<in> set lfs \<and> dt \<in> {''A'', ''B''}
          \<and> JList [JStr ''#resolve'', JStr ''B'', JStr ''[item]'', JStr ''y'']
              = JList (JStr ''#resolve'' # JStr dt # JStr ''[item]'' # map JStr field))"
proof -
  have a: "linked_field_sets_to_join_query [[(''A'', [''x'']), (''B'', [''y'']), (''C'', [''z''])]] {''A'', ''B''}
     = Inr (JList [JStr ''#eq'',
                   JList [JStr ''#resolve'', JStr ''A'', JStr ''[item]'', JStr ''x''],
                   JList [JStr ''#resolve'', JStr ''B'', JStr ''[item]'', JStr ''y'']])"
    by (simp add: surviving_pairs_def linked_fields_to_join_query_fragment_def)
  have b: "JList [JStr ''#resolve'', JStr ''B'', JStr ''[item]'', JStr ''y'']
       \<in> set (resolve_nodes (JList [JStr ''#eq'',
                   JList [JStr ''#resolve'', JStr ''A'', JStr ''[item]'', JStr ''x''],
                   JList [JStr ''#resolve'', JStr ''B'', JStr ''[item]'', JStr ''y'']]))"
    by simp
  from join_query_resolves_are_scoped[of "[[(''A'', [''x'']), (''B'', [''y'']), (''C'', [''z''])]]" "{''A'', ''B''}"]
    a b show ?thesis by blast
qed

section \<open>Properties of the orchestrator\<close>

lemma no_table_loop_returns_early:
  "\<exists>x \<in> set xs. snd x \<noteq> JBool True \<Longrightarrow> \<exists>s'. no_table_loop s ex xs = Inl s'"
proof (induction xs arbitrary: s ex)
  case Nil
  then show ?case by simp
next
  case (Cons x xs)
  obtain dt dt_q where x: "x = (dt, dt_q)" by (cases x)
  show ?case
  proof (cases "dt_q = JBool True")
    case True
    with Cons.prems x have "\<exists>y \<in> set xs. snd y \<noteq> JBool True" by auto
    from Cons.IH[OF this] x True show ?thesis by simp
  next
    case False
    with x show ?thesis by simp
  qed
qed

lemma no_table_loop_all_true:
  "\<forall>x \<in> set xs. snd x = JBool True \<Longrightarrow>
     no_table_loop s ex xs =
       Inr (s\<lparr>properties := foldl (\<lambda>al d. AList.update d (JObj [(''type'', JStr ''array'')]) al) (properties s) (map fst xs)\<rparr>,
            ex \<union> fst ` set xs)"
proof (induction xs arbitrary: s ex)
  case Nil
  then show ?case by simp
next
  case (Cons x xs)
  obtain dt dt_q where x: "x = (dt, dt_q)" by (cases x)
  from Cons.prems x have t: "dt_q = JBool True" and rest: "\<forall>y \<in> set xs. snd y = JBool True" by auto
  show ?case using Cons.IH[OF rest] x t by simp
qed




lemma run_short_circuit:
  assumes "fetch_table_definition_worker ps [] (table_ownerships ds) = Inr tors"
    and "no_table_loop dataset_object_schema {}
           (filter (\<lambda>dt2. fst dt2 \<notin> (\<lambda>t. data_type (snd t)) ` set tors) data_type_queries) = Inl s'"
  shows "run_search_on_dataset py_str ps dataset_object_schema ds join_query data_type_queries
           include_internal_results =
         Inr \<lparr>dataset_results = map (\<lambda>dt2. (fst dt2, JList [])) data_type_queries,
              final_join_query = JNull, ic_paths_to_filter = [], schema_after = s',
              requests_sent = []\<rparr>"
  using assms by (simp add: run_search_on_dataset_def)

text \<open>
  Claim C4, as stated, fails: when the fetch of a table's definition raises, the queried
  data type \<open>A\<close> has no fetched table and its query \<open>1\<close> is not \<^verbatim>\<open>True\<close>, yet the call
  does not return: the \<^verbatim>\<open>finally\<close> block awaits the pool of definition workers, and the
  exception of the fetch leaves the call.
\<close>

theorem run_search_on_dataset_failed_fetch_counterexample:
  "run_search_on_dataset (\<lambda>v. [])
     \<lparr>table_definition = (\<lambda>t. Inl PeerError), table_search = (\<lambda>req. Inr (JBool True))\<rparr>
     \<lparr>properties = []\<rparr>
     \<lparr>table_ownerships = [\<lparr>service_artifact = ''svc'', table_id = ''t1''\<rparr>],
      linked_field_sets = None\<rparr>
     JNull [(''A'', JNum 1)] False
   = Inl PeerError"
  by (simp add: run_search_on_dataset_def)

text \<open>
  Claim C4, amended: in every call in which the fetch of each table's definition returned,
  if some queried data type has no fetched table and its query is not the literal
  \<^verbatim>\<open>True\<close>, the call returns the dict that sends every queried data type to the empty
  list, \<^verbatim>\<open>None\<close> as join query and no path, whatever the other data types' tables are; no
  search request has been sent.
\<close>

theorem run_search_on_dataset_short_circuit:
  assumes "fetch_table_definition_worker ps [] (table_ownerships ds) = Inr tors"
    and "(dt, dt_q) \<in> set data_type_queries"
    and "dt \<notin> (\<lambda>t. data_type (snd t)) ` set tors"
    and "dt_q \<noteq> JBool True"
  shows "\<exists>s'. run_search_on_dataset py_str ps dataset_object_schema ds join_query data_type_queries
                 include_internal_results =
               Inr \<lparr>dataset_results = map (\<lambda>dt2. (fst dt2, JList [])) data_type_queries,
                    final_join_query = JNull, ic_paths_to_filter = [], schema_after = s',
                    requests_sent = []\<rparr>"
proof -
  let ?xs = "filter (\<lambda>dt2. fst dt2 \<notin> (\<lambda>t. data_type (snd t)) ` set tors) data_type_queries"
  from assms(2,3,4) have "\<exists>x \<in> set ?xs. snd x \<noteq> JBool True" by force
  from no_table_loop_returns_early[OF this] obtain s'
    where "no_table_loop dataset_object_schema {} ?xs = Inl s'" by blast
  from run_short_circuit[OF assms(1) this] show ?thesis by blast
qed

text \<open>
  Claim C1 at a dataset without tables and the query \<^verbatim>\<open>{"C": True}\<close>: the call passes
  the loop over the data types without tables, adds the bare array schema for \<open>C\<close>, and
  returns the results of the search workers, an empty dict: \<open>C\<close> is no key of it.
\<close>

theorem run_search_on_dataset_excluded_type_has_no_entry:
  "run_search_on_dataset py_str ps \<lparr>properties = []\<rparr>
     \<lparr>table_ownerships = [], linked_field_sets = None\<rparr> JNull [(''C'', JBool True)] False =
   Inr \<lparr>dataset_results = [], final_join_query = JNull, ic_paths_to_filter = [],
        schema_after = \<lparr>properties = [(''C'', JObj [(''type'', JStr ''array'')])]\<rparr>,
        requests_sent = []\<rparr>"
  by (simp add: run_search_on_dataset_def get_dataset_linked_field_sets_def
        combine_join_and_data_type_queries_def)


text \<open>
  The amended C4 at one table of data type \<open>A\<close> and the queries \<open>A: True\<close>, \<open>C: 1\<close>: the
  number \<open>1\<close> is not \<^verbatim>\<open>True\<close>.
\<close>

theorem run_search_on_dataset_short_circuit_witness:
  "fetch_table_definition_worker
     \<lparr>table_definition = (\<lambda>t. Inr \<lparr>data_type = ''A'', schema = JObj [], record_id = ''r1''\<rparr>),
      table_search = (\<lambda>q. Inr (JBool True))\<rparr> []
     (table_ownerships \<lparr>table_ownerships = [\<lparr>service_artifact = ''svc'', table_id = ''t1''\<rparr>],
                        linked_field_sets = None\<rparr>)
     = Inr [(\<lparr>service_artifact = ''svc'', table_id = ''t1''\<rparr>,
             \<lparr>data_type = ''A'', schema = JObj [], record_id = ''r1''\<rparr>)]
   \<and> (''C'', JNum 1) \<in> set [(''A'', JBool True), (''C'', JNum 1)]
   \<and> JNum 1 \<noteq> JBool True
   \<and> (\<exists>s'. run_search_on_dataset (\<lambda>v. [])
          \<lparr>table_definition = (\<lambda>t. Inr \<lparr>data_type = ''A'', schema = JObj [], record_id = ''r1''\<rparr>),
           table_search = (\<lambda>q. Inr (JBool True))\<rparr>
          \<lparr>properties = []\<rparr>
          \<lparr>table_ownerships = [\<lparr>service_artifact = ''svc'', table_id = ''t1''\<rparr>],
           linked_field_sets = None\<rparr>
          JNull [(''A'', JBool True), (''C'', JNum 1)] True
        = Inr \<lparr>dataset_results = [(''A'', JList []), (''C'', JList [])],
               final_join_query = JNull, ic_paths_to_filter = [], schema_after = s',
               requests_sent = []\<rparr>)"
proof -
  let ?ps = "\<lparr>table_definition = (\<lambda>t. Inr \<lparr>data_type = ''A'', schema = JObj [], record_id = ''r1''\<rparr>),
      table_search = (\<lambda>q. Inr (JBool True))\<rparr>"
  let ?ds = "\<lparr>table_ownerships = [\<lparr>service_artifact = ''svc'', table_id = ''t1''\<rparr>],
                        linked_field_sets = None\<rparr>"
  let ?tors = "[(\<lparr>service_artifact = ''svc'', table_id = ''t1''\<rparr>,
             \<lparr>data_type = ''A'', schema = JObj [], record_id = ''r1''\<rparr>)]"
  have a: "fetch_table_definition_worker ?ps [] (table_ownerships ?ds) = Inr ?tors" by simp
  have b: "(''C'', JNum 1) \<in> set [(''A'', JBool True), (''C'', JNum 1)]" by simp
  have c: "''C'' \<notin> (\<lambda>t. data_type (snd t)) ` set ?tors" by simp
  have d: "JNum 1 \<noteq> JBool True" by simp
  from a have a': "fetch_table_definition_worker ?ps []
     (table_ownerships \<lparr>table_ownerships = [\<lparr>service_artifact = ''svc'', table_id = ''t1''\<rparr>],
                        linked_field_sets = None\<rparr>) = Inr ?tors" .
  have e: "\<exists>s'. run_search_on_dataset (\<lambda>v. []) ?ps \<lparr>properties = []\<rparr> ?ds
          JNull [(''A'', JBool True), (''C'', JNum 1)] True
        = Inr \<lparr>dataset_results = map (\<lambda>dt2. (fst dt2, JList [])) [(''A'', JBool True), (''C'', JNum 1)],
               final_join_query = JNull, ic_paths_to_filter = [], schema_after = s',
               requests_sent = []\<rparr>"
    by (rule run_search_on_dataset_short_circuit[OF a b c d])
  have m: "map (\<lambda>dt2. (fst dt2, JList [])) [(''A'', JBool True), (''C'', JNum 1)]
             = [(''A'', JList []), (''C'', JList [])]" by simp
  from e have e': "\<exists>s'. run_search_on_dataset (\<lambda>v. []) ?ps \<lparr>properties = []\<rparr> ?ds
          JNull [(''A'', JBool True), (''C'', JNum 1)] True
        = Inr \<lparr>dataset_results = [(''A'', JList []), (''C'', JList [])],
               final_join_query = JNull, ic_paths_to_filter = [], schema_after = s',
               requests_sent = []\<rparr>"
    unfolding m .
  from a' b d e' show ?thesis by blast
qed


lemma run_no_short_circuit:
  assumes disc: "fetch_table_definition_worker ps [] (table_ownerships ds) = Inr tors"
    and ok: "\<forall>x \<in> set data_type_queries. fst x \<notin> (\<lambda>t. data_type (snd t)) ` set tors \<longrightarrow> snd x = JBool True"
    and run: "run_search_on_dataset py_str ps dataset_object_schema ds join_query data_type_queries
                include_internal_results = Inr r"
  shows "\<exists>jq1. (if join_query = JNull
               then linked_field_sets_to_join_query (get_dataset_linked_field_sets ds)
                      (fst ` set data_type_queries \<inter> (\<lambda>t. data_type (snd t)) ` set tors)
               else Inr join_query) = Inr jq1
          \<and> ic_paths_to_filter r = (if include_internal_results then get_array_resolve_paths py_str jq1 else [])
          \<and> combine_join_and_data_type_queries jq1 data_type_queries = Inr (final_join_query r)"
proof -
  let ?types = "(\<lambda>t. data_type (snd t)) ` set tors"
  let ?xs = "filter (\<lambda>dt2. fst dt2 \<notin> ?types) data_type_queries"
  from ok have "\<forall>x \<in> set ?xs. snd x = JBool True" by auto
  from no_table_loop_all_true[OF this, of dataset_object_schema "{}"]
  obtain s' where loop: "no_table_loop dataset_object_schema {} ?xs = Inr (s', {} \<union> fst ` set ?xs)"
    by blast
  have ex: "fst ` set data_type_queries - ({} \<union> fst ` set ?xs) = fst ` set data_type_queries \<inter> ?types"
    by force
  let ?jq = "(if join_query = JNull
               then linked_field_sets_to_join_query (get_dataset_linked_field_sets ds)
                      (fst ` set data_type_queries \<inter> ?types)
               else Inr join_query)"
  from run disc loop have run': "(case ?jq of
        Inl e \<Rightarrow> Inl e
      | Inr join_query1 \<Rightarrow>
          (case combine_join_and_data_type_queries join_query1 data_type_queries of
             Inl e \<Rightarrow> Inl e
           | Inr join_query2 \<Rightarrow>
               (case table_search_worker ps join_query2 data_type_queries include_internal_results
                       \<lparr>st_schema = s', st_results = [], st_requests = []\<rparr> tors of
                  Inl e \<Rightarrow> Inl e
                | Inr st \<Rightarrow>
                    Inr \<lparr>dataset_results = st_results st, final_join_query = join_query2,
                         ic_paths_to_filter =
                           (if include_internal_results then get_array_resolve_paths py_str join_query1 else []),
                         schema_after = st_schema st, requests_sent = st_requests st\<rparr>))) = Inr r"
    unfolding run_search_on_dataset_def by (simp only: Let_def sum.case prod.case ex)
  then obtain jq1 where jq1: "?jq = Inr jq1" by (cases ?jq) simp_all
  with run' obtain jq2 where jq2: "combine_join_and_data_type_queries jq1 data_type_queries = Inr jq2"
    by (cases "combine_join_and_data_type_queries jq1 data_type_queries") simp_all
  with run' jq1 obtain st where "table_search_worker ps jq2 data_type_queries include_internal_results
                       \<lparr>st_schema = s', st_results = [], st_requests = []\<rparr> tors = Inr st"
    by (cases "table_search_worker ps jq2 data_type_queries include_internal_results
                       \<lparr>st_schema = s', st_results = [], st_requests = []\<rparr> tors") simp_all
  with run' jq1 jq2 have "r = \<lparr>dataset_results = st_results st, final_join_query = jq2,
                         ic_paths_to_filter =
                           (if include_internal_results then get_array_resolve_paths py_str jq1 else []),
                         schema_after = st_schema st, requests_sent = st_requests st\<rparr>" by simp
  with jq1 jq2 show ?thesis by simp
qed


text \<open>
  Claim C7, as stated, fails on the early return of the loop over the data types without
  tables: with internal results requested and a given join query that resolves through an
  array of \<open>A\<close>, the call returns no path, while the collector gives one for that join
  query.
\<close>

theorem ic_paths_early_return_counterexample:
  "run_search_on_dataset (\<lambda>v. [])
     \<lparr>table_definition = (\<lambda>t. Inr \<lparr>data_type = ''A'', schema = JObj [], record_id = ''r1''\<rparr>),
      table_search = (\<lambda>req. Inr (JBool True))\<rparr>
     \<lparr>properties = []\<rparr>
     \<lparr>table_ownerships = [\<lparr>service_artifact = ''svc'', table_id = ''t1''\<rparr>],
      linked_field_sets = None\<rparr>
     (JList [JStr ''#resolve'', JStr ''A'', JStr ''[item]'', JStr ''x''])
     [(''C'', JNum 1)] True
   = Inr \<lparr>dataset_results = [(''C'', JList [])], final_join_query = JNull,
          ic_paths_to_filter = [], schema_after = \<lparr>properties = []\<rparr>, requests_sent = []\<rparr>
   \<and> get_array_resolve_paths (\<lambda>v. [])
         (JList [JStr ''#resolve'', JStr ''A'', JStr ''[item]'', JStr ''x''])
       = [''_root.A'']"
  by (simp add: run_search_on_dataset_def)

text \<open>
  Claim C7, amended: in every call that returns, the returned paths are empty when internal
  results are not requested; when they are requested and the call passes the loop over the
  data types without tables, the paths are those collected from the join query before its
  combination (the given one, or the one synthesized over the queried data types that have
  a table), and the returned join query is the combination of that same query with the
  data type queries. On the early return of that loop there is no combination: the join
  query returned is \<^verbatim>\<open>None\<close> and the paths are empty.
\<close>

theorem ic_paths_from_join_query_before_combination:
  assumes disc: "fetch_table_definition_worker ps [] (table_ownerships ds) = Inr tors"
    and run: "run_search_on_dataset py_str ps dataset_object_schema ds join_query data_type_queries
                include_internal_results = Inr r"
  shows "(\<not> include_internal_results \<longrightarrow> ic_paths_to_filter r = [])
       \<and> (include_internal_results
            \<and> (\<forall>x \<in> set data_type_queries.
                   fst x \<notin> (\<lambda>t. data_type (snd t)) ` set tors \<longrightarrow> snd x = JBool True)
          \<longrightarrow> (\<exists>jq1. (if join_query = JNull
                      then linked_field_sets_to_join_query (get_dataset_linked_field_sets ds)
                             (fst ` set data_type_queries \<inter> (\<lambda>t. data_type (snd t)) ` set tors)
                      else Inr join_query) = Inr jq1
                 \<and> ic_paths_to_filter r = get_array_resolve_paths py_str jq1
                 \<and> combine_join_and_data_type_queries jq1 data_type_queries = Inr (final_join_query r)))
       \<and> (\<not> (\<forall>x \<in> set data_type_queries.
                   fst x \<notin> (\<lambda>t. data_type (snd t)) ` set tors \<longrightarrow> snd x = JBool True)
          \<longrightarrow> ic_paths_to_filter r = [] \<and> final_join_query r = JNull)"
proof (cases "\<forall>x \<in> set data_type_queries.
                   fst x \<notin> (\<lambda>t. data_type (snd t)) ` set tors \<longrightarrow> snd x = JBool True")
  case True
  from run_no_short_circuit[OF disc True run] obtain jq1 where
    "(if join_query = JNull
      then linked_field_sets_to_join_query (get_dataset_linked_field_sets ds)
             (fst ` set data_type_queries \<inter> (\<lambda>t. data_type (snd t)) ` set tors)
      else Inr join_query) = Inr jq1"
    "ic_paths_to_filter r = (if include_internal_results then get_array_resolve_paths py_str jq1 else [])"
    "combine_join_and_data_type_queries jq1 data_type_queries = Inr (final_join_query r)"
    by blast
  then have "\<not> include_internal_results \<longrightarrow> ic_paths_to_filter r = []"
    and "include_internal_results \<longrightarrow>
           (\<exists>jq1. (if join_query = JNull
                   then linked_field_sets_to_join_query (get_dataset_linked_field_sets ds)
                          (fst ` set data_type_queries \<inter> (\<lambda>t. data_type (snd t)) ` set tors)
                   else Inr join_query) = Inr jq1
              \<and> ic_paths_to_filter r = get_array_resolve_paths py_str jq1
              \<and> combine_join_and_data_type_queries jq1 data_type_queries = Inr (final_join_query r))"
    by simp_all
  with True show ?thesis by blast
next
  case False
  then obtain dt dt_q where "(dt, dt_q) \<in> set data_type_queries"
    "dt \<notin> (\<lambda>t. data_type (snd t)) ` set tors" "dt_q \<noteq> JBool True" by force
  then have "\<exists>x \<in> set (filter (\<lambda>dt2. fst dt2 \<notin> (\<lambda>t. data_type (snd t)) ` set tors) data_type_queries).
               snd x \<noteq> JBool True" by force
  from no_table_loop_returns_early[OF this] obtain s'
    where "no_table_loop dataset_object_schema {}
             (filter (\<lambda>dt2. fst dt2 \<notin> (\<lambda>t. data_type (snd t)) ` set tors) data_type_queries) = Inl s'"
    by blast
  from run_short_circuit[OF disc this, of py_str join_query include_internal_results] run
  have "ic_paths_to_filter r = [] \<and> final_join_query r = JNull" by auto
  with False show ?thesis by blast
qed


text \<open>
  The amended C7 at two tables \<open>A\<close>, \<open>B\<close> linked by one field set: the returned paths are those
  of the synthesized equality; the combined query would give one path more.
\<close>

theorem ic_paths_from_join_query_before_combination_witness:
  "run_search_on_dataset (\<lambda>v. [])
      \<lparr>table_definition = (\<lambda>t. Inr \<lparr>data_type = table_id t, schema = JObj [], record_id = table_id t\<rparr>),
       table_search = (\<lambda>req. Inr (JObj [(''results'', JList [JStr (req_table_id req)])]))\<rparr>
      \<lparr>properties = []\<rparr>
      \<lparr>table_ownerships = [\<lparr>service_artifact = ''svc'', table_id = ''A''\<rparr>,
                          \<lparr>service_artifact = ''svc'', table_id = ''B''\<rparr>],
       linked_field_sets = Some [\<lparr>lfs_fields = [(''A'', [''x'']), (''B'', [''y''])]\<rparr>]\<rparr>
      JNull
      [(''A'', JList [JStr ''#eq'', JList [JStr ''#resolve'', JStr ''x''], JNum 1]), (''B'', JBool True)]
      True
    = Inr \<lparr>dataset_results = [(''A'', JList [JStr ''A'']), (''B'', JList [JStr ''B''])],
         final_join_query =
           JList [JStr ''#and'', JBool True,
                  JList [JStr ''#and'',
                         JList [JStr ''#eq'',
                                JList [JStr ''#resolve'', JStr ''A'', JStr ''[item]'', JStr ''x''],
                                JNum 1],
                         JList [JStr ''#eq'',
                         JList [JStr ''#resolve'', JStr ''A'', JStr ''[item]'', JStr ''x''],
                         JList [JStr ''#resolve'', JStr ''B'', JStr ''[item]'', JStr ''y'']]]],
         ic_paths_to_filter = [''_root.A'', ''_root.B''],
         schema_after =
           \<lparr>properties =
              [(''A'', JObj [(''type'', JStr ''array''), (''items'', JObj [])]),
               (''B'', JObj [(''type'', JStr ''array''), (''items'', JObj [])])]\<rparr>,
         requests_sent =
           [\<lparr>req_service_artifact = ''svc'', req_private = True, req_table_id = ''A'',
              req_query = JList [JStr ''#eq'', JList [JStr ''#resolve'', JStr ''x''], JNum 1]\<rparr>,
            \<lparr>req_service_artifact = ''svc'', req_private = True, req_table_id = ''B'',
              req_query = JBool True\<rparr>]\<rparr>
   \<and> ic_paths_to_filter \<lparr>dataset_results = [(''A'', JList [JStr ''A'']), (''B'', JList [JStr ''B''])],
         final_join_query =
           JList [JStr ''#and'', JBool True,
                  JList [JStr ''#and'',
                         JList [JStr ''#eq'',
                                JList [JStr ''#resolve'', JStr ''A'', JStr ''[item]'', JStr ''x''],
                                JNum 1],
                         JList [JStr ''#eq'',
                         JList [JStr ''#resolve'', JStr ''A'', JStr ''[item]'', JStr ''x''],
                         JList [JStr ''#resolve'', JStr ''B'', JStr ''[item]'', JStr ''y'']]]],
         ic_paths_to_filter = [''_root.A'', ''_root.B''],
         schema_after =
           \<lparr>properties =
              [(''A'', JObj [(''type'', JStr ''array''), (''items'', JObj [])]),
               (''B'', JObj [(''type'', JStr ''array''), (''items'', JObj [])])]\<rparr>,
         requests_sent =
           [\<lparr>req_service_artifact = ''svc'', req_private = True, req_table_id = ''A'',
              req_query = JList [JStr ''#eq'', JList [JStr ''#resolve'', JStr ''x''], JNum 1]\<rparr>,
            \<lparr>req_service_artifact = ''svc'', req_private = True, req_table_id = ''B'',
              req_query = JBool True\<rparr>]\<rparr>
     = get_array_resolve_paths (\<lambda>v. [])
         (JList [JStr ''#eq'',
              JList [JStr ''#resolve'', JStr ''A'', JStr ''[item]'', JStr ''x''],
              JList [JStr ''#resolve'', JStr ''B'', JStr ''[item]'', JStr ''y'']])
   \<and> get_array_resolve_paths (\<lambda>v. []) (final_join_query \<lparr>dataset_results = [(''A'', JList [JStr ''A'']), (''B'', JList [JStr ''B''])],
         final_join_query =
           JList [JStr ''#and'', JBool True,
                  JList [JStr ''#and'',
                         JList [JStr ''#eq'',
                                JList [JStr ''#resolve'', JStr ''A'', JStr ''[item]'', JStr ''x''],
                                JNum 1],
                         JList [JStr ''#eq'',
                         JList [JStr ''#resolve'', JStr ''A'', JStr ''[item]'', JStr ''x''],
                         JList [JStr ''#resolve'', JStr ''B'', JStr ''[item]'', JStr ''y'']]]],
         ic_paths_to_filter = [''_root.A'', ''_root.B''],
         schema_after =
           \<lparr>properties =
              [(''A'', JObj [(''type'', JStr ''array''), (''items'', JObj [])]),
               (''B'', JObj [(''type'', JStr ''array''), (''items'', JObj [])])]\<rparr>,
         requests_sent =
           [\<lparr>req_service_artifact = ''svc'', req_private = True, req_table_id = ''A'',
              req_query = JList [JStr ''#eq'', JList [JStr ''#resolve'', JStr ''x''], JNum 1]\<rparr>,
            \<lparr>req_service_artifact = ''svc'', req_private = True, req_table_id = ''B'',
              req_query = JBool True\<rparr>]\<rparr>)
     = [''_root.A'', ''_root.A'', ''_root.B'']"
proof -
  let ?ps = "\<lparr>table_definition = (\<lambda>t. Inr \<lparr>data_type = table_id t, schema = JObj [], record_id = table_id t\<rparr>),
       table_search = (\<lambda>req. Inr (JObj [(''results'', JList [JStr (req_table_id req)])]))\<rparr>"
  let ?ds = "\<lparr>table_ownerships = [\<lparr>service_artifact = ''svc'', table_id = ''A''\<rparr>,
                          \<lparr>service_artifact = ''svc'', table_id = ''B''\<rparr>],
       linked_field_sets = Some [\<lparr>lfs_fields = [(''A'', [''x'']), (''B'', [''y''])]\<rparr>]\<rparr>"
  let ?dtq = "[(''A'', JList [JStr ''#eq'', JList [JStr ''#resolve'', JStr ''x''], JNum 1]), (''B'', JBool True)]"
  let ?r = "\<lparr>dataset_results = [(''A'', JList [JStr ''A'']), (''B'', JList [JStr ''B''])],
         final_join_query =
           JList [JStr ''#and'', JBool True,
                  JList [JStr ''#and'',
                         JList [JStr ''#eq'',
                                JList [JStr ''#resolve'', JStr ''A'', JStr ''[item]'', JStr ''x''],
                                JNum 1],
                         JList [JStr ''#eq'',
                         JList [JStr ''#resolve'', JStr ''A'', JStr ''[item]'', JStr ''x''],
                         JList [JStr ''#resolve'', JStr ''B'', JStr ''[item]'', JStr ''y'']]]],
         ic_paths_to_filter = [''_root.A'', ''_root.B''],
         schema_after =
           \<lparr>properties =
              [(''A'', JObj [(''type'', JStr ''array''), (''items'', JObj [])]),
               (''B'', JObj [(''type'', JStr ''array''), (''items'', JObj [])])]\<rparr>,
         requests_sent =
           [\<lparr>req_service_artifact = ''svc'', req_private = True, req_table_id = ''A'',
              req_query = JList [JStr ''#eq'', JList [JStr ''#resolve'', JStr ''x''], JNum 1]\<rparr>,
            \<lparr>req_service_artifact = ''svc'', req_private = True, req_table_id = ''B'',
              req_query = JBool True\<rparr>]\<rparr>"
  let ?tors = "[(\<lparr>service_artifact = ''svc'', table_id = ''A''\<rparr>,
                 \<lparr>data_type = ''A'', schema = JObj [], record_id = ''A''\<rparr>),
                (\<lparr>service_artifact = ''svc'', table_id = ''B''\<rparr>,
                 \<lparr>data_type = ''B'', schema = JObj [], record_id = ''B''\<rparr>)]"
  have disc: "fetch_table_definition_worker ?ps [] (table_ownerships ?ds) = Inr ?tors" by simp
  have run: "run_search_on_dataset (\<lambda>v. []) ?ps \<lparr>properties = []\<rparr> ?ds JNull ?dtq True = Inr ?r"
    by (simp add: run_search_on_dataset_def get_dataset_linked_field_sets_def
          surviving_pairs_def linked_fields_to_join_query_fragment_def
          combine_join_and_data_type_queries_def table_search_prepare_def
          table_search_accumulate_def Let_def)
  have ok: "\<forall>x \<in> set ?dtq. fst x \<notin> (\<lambda>t. data_type (snd t)) ` set ?tors \<longrightarrow> snd x = JBool True"
    by simp
  from ic_paths_from_join_query_before_combination[OF disc run] ok
  obtain jq1 where
    jq1: "linked_field_sets_to_join_query (get_dataset_linked_field_sets ?ds)
            (fst ` set ?dtq \<inter> (\<lambda>t. data_type (snd t)) ` set ?tors) = Inr jq1"
    and paths: "ic_paths_to_filter ?r = get_array_resolve_paths (\<lambda>v. []) jq1"
    by auto
  have "linked_field_sets_to_join_query (get_dataset_linked_field_sets ?ds)
            (fst ` set ?dtq \<inter> (\<lambda>t. data_type (snd t)) ` set ?tors)
        = Inr (JList [JStr ''#eq'',
              JList [JStr ''#resolve'', JStr ''A'', JStr ''[item]'', JStr ''x''],
              JList [JStr ''#resolve'', JStr ''B'', JStr ''[item]'', JStr ''y'']])"
    by (simp add: get_dataset_linked_field_sets_def surviving_pairs_def
          linked_fields_to_join_query_fragment_def)
  with jq1 have "jq1 = JList [JStr ''#eq'',
              JList [JStr ''#resolve'', JStr ''A'', JStr ''[item]'', JStr ''x''],
              JList [JStr ''#resolve'', JStr ''B'', JStr ''[item]'', JStr ''y'']]" by simp
  with paths have p: "ic_paths_to_filter ?r = get_array_resolve_paths (\<lambda>v. [])
         (JList [JStr ''#eq'',
              JList [JStr ''#resolve'', JStr ''A'', JStr ''[item]'', JStr ''x''],
              JList [JStr ''#resolve'', JStr ''B'', JStr ''[item]'', JStr ''y'']])" by simp
  have f: "get_array_resolve_paths (\<lambda>v. []) (final_join_query ?r)
     = [''_root.A'', ''_root.A'', ''_root.B'']" by simp
  from run p f show ?thesis by blast
qed





section \<open>Properties of the search worker\<close>

lemma accumulate_public:
  assumes "map_of results dt = None \<and> old = [] \<or> map_of results dt = Some (JList old)"
  shows "table_search_accumulate False dt r results =
           Inr (AList.update dt (JList (old @ (if truthy r then [r] else []))) results)"
  using assms by (auto simp: table_search_accumulate_def)

text \<open>
  Claim C8: in public mode (no join query in effect, internal results not requested), the
  item of a queried table whose search returns \<open>r\<close> leaves the data type's entry extended
  by exactly the one element \<open>r\<close> when \<open>r\<close> is truthy, and by nothing when it is falsy
  (the entry is created when the data type had none); the other entries and the schema are
  unchanged.
\<close>

theorem public_search_contributes_one_marker:
  assumes queried: "map_of data_type_queries (data_type table_record) = Some q"
    and response: "table_search ps
                     \<lparr>req_service_artifact = service_artifact table_ownership, req_private = False,
                      req_table_id = record_id table_record, req_query = q\<rparr> = Inr r"
    and entry: "map_of (st_results st) (data_type table_record) = None \<and> old = []
                \<or> map_of (st_results st) (data_type table_record) = Some (JList old)"
  shows "\<exists>st'. table_search_worker ps JNull data_type_queries False st [(table_ownership, table_record)]
                 = Inr st'
             \<and> map_of (st_results st') (data_type table_record)
                 = Some (JList (old @ (if truthy r then [r] else [])))
             \<and> length (old @ (if truthy r then [r] else [])) = length old + (if truthy r then 1 else 0)
             \<and> (\<forall>d. d \<noteq> data_type table_record \<longrightarrow> map_of (st_results st') d = map_of (st_results st) d)
             \<and> st_schema st' = st_schema st"
proof -
  let ?dt = "data_type table_record"
  let ?req = "\<lparr>req_service_artifact = service_artifact table_ownership, req_private = False,
                      req_table_id = record_id table_record, req_query = q\<rparr>"
  let ?new = "AList.update ?dt (JList (old @ (if truthy r then [r] else []))) (st_results st)"
  have prep: "table_search_prepare JNull data_type_queries False (st_schema st) (table_ownership, table_record)
                = (st_schema st, Some ?req)"
    using queried by (simp add: table_search_prepare_def)
  have acc: "table_search_accumulate False ?dt r (st_results st) = Inr ?new"
    by (rule accumulate_public[OF entry])
  have "table_search_worker ps JNull data_type_queries False st [(table_ownership, table_record)]
          = Inr \<lparr>st_schema = st_schema st, st_results = ?new, st_requests = st_requests st @ [?req]\<rparr>"
    using prep response acc by simp
  then show ?thesis by (simp add: update_conv')
qed


text \<open>Claim C8 at the truthy response \<open>7\<close> and at the falsy response \<open>0\<close>.\<close>

theorem public_search_contributes_one_marker_witness:
  "(\<exists>st'. table_search_worker
            \<lparr>table_definition = (\<lambda>t. Inl PeerError), table_search = (\<lambda>req. Inr (JNum 7))\<rparr>
            JNull [(''A'', JBool True)] False
            \<lparr>st_schema = \<lparr>properties = []\<rparr>, st_results = [(''A'', JList [JStr ''m''])], st_requests = []\<rparr>
            [(\<lparr>service_artifact = ''svc'', table_id = ''t1''\<rparr>,
              \<lparr>data_type = ''A'', schema = JObj [], record_id = ''r1''\<rparr>)]
          = Inr st'
        \<and> map_of (st_results st') ''A'' = Some (JList [JStr ''m'', JNum 7]))
   \<and> (\<exists>st'. table_search_worker
            \<lparr>table_definition = (\<lambda>t. Inl PeerError), table_search = (\<lambda>req. Inr (JNum 0))\<rparr>
            JNull [(''A'', JBool True)] False
            \<lparr>st_schema = \<lparr>properties = []\<rparr>, st_results = [(''A'', JList [JStr ''m''])], st_requests = []\<rparr>
            [(\<lparr>service_artifact = ''svc'', table_id = ''t1''\<rparr>,
              \<lparr>data_type = ''A'', schema = JObj [], record_id = ''r1''\<rparr>)]
          = Inr st'
        \<and> map_of (st_results st') ''A'' = Some (JList [JStr ''m'']))"
proof -
  let ?st = "\<lparr>st_schema = \<lparr>properties = []\<rparr>, st_results = [(''A'', JList [JStr ''m''])], st_requests = []\<rparr>"
  let ?own = "\<lparr>service_artifact = ''svc'', table_id = ''t1''\<rparr>"
  let ?rec = "\<lparr>data_type = ''A'', schema = JObj [], record_id = ''r1''\<rparr>"
  have q: "map_of [(''A'', JBool True)] (data_type ?rec) = Some (JBool True)" by simp
  have e: "map_of (st_results ?st) (data_type ?rec) = None \<and> [JStr ''m''] = []
           \<or> map_of (st_results ?st) (data_type ?rec) = Some (JList [JStr ''m''])" by simp
  have r1: "table_search \<lparr>table_definition = (\<lambda>t. Inl PeerError), table_search = (\<lambda>req. Inr (JNum 7))\<rparr>
              \<lparr>req_service_artifact = service_artifact ?own, req_private = False,
               req_table_id = record_id ?rec, req_query = JBool True\<rparr> = Inr (JNum 7)" by simp
  have r2: "table_search \<lparr>table_definition = (\<lambda>t. Inl PeerError), table_search = (\<lambda>req. Inr (JNum 0))\<rparr>
              \<lparr>req_service_artifact = service_artifact ?own, req_private = False,
               req_table_id = record_id ?rec, req_query = JBool True\<rparr> = Inr (JNum 0)" by simp
  from public_search_contributes_one_marker[OF q r1 e]
  have i1: "(\<exists>st'. table_search_worker
            \<lparr>table_definition = (\<lambda>t. Inl PeerError), table_search = (\<lambda>req. Inr (JNum 7))\<rparr>
            JNull [(''A'', JBool True)] False
            \<lparr>st_schema = \<lparr>properties = []\<rparr>, st_results = [(''A'', JList [JStr ''m''])], st_requests = []\<rparr>
            [(\<lparr>service_artifact = ''svc'', table_id = ''t1''\<rparr>,
              \<lparr>data_type = ''A'', schema = JObj [], record_id = ''r1''\<rparr>)]
          = Inr st'
        \<and> map_of (st_results st') ''A'' = Some (JList [JStr ''m'', JNum 7]))" by (auto simp del: table_search_worker.simps)
  from public_search_contributes_one_marker[OF q r2 e]
  have i2: "(\<exists>st'. table_search_worker
            \<lparr>table_definition = (\<lambda>t. Inl PeerError), table_search = (\<lambda>req. Inr (JNum 0))\<rparr>
            JNull [(''A'', JBool True)] False
            \<lparr>st_schema = \<lparr>properties = []\<rparr>, st_results = [(''A'', JList [JStr ''m''])], st_requests = []\<rparr>
            [(\<lparr>service_artifact = ''svc'', table_id = ''t1''\<rparr>,
              \<lparr>data_type = ''A'', schema = JObj [], record_id = ''r1''\<rparr>)]
          = Inr st'
        \<and> map_of (st_results st') ''A'' = Some (JList [JStr ''m'']))" by (auto simp del: table_search_worker.simps)
  from i1 i2 show ?thesis by blast
qed

text \<open>In public mode every entry of the results stays a list, so an entry is always as C8 asks.\<close>

lemma public_accumulate_keeps_lists:
  assumes "\<forall>k v. map_of results k = Some v \<longrightarrow> (\<exists>xs. v = JList xs)"
    and "table_search_accumulate False dt r results = Inr results'"
  shows "\<forall>k v. map_of results' k = Some v \<longrightarrow> (\<exists>xs. v = JList xs)"
proof (cases "map_of results dt")
  case None
  with assms(2) have "results' = AList.update dt (JList (if truthy r then [r] else [])) results"
    by (simp add: table_search_accumulate_def)
  with assms(1) show ?thesis by (simp add: update_conv')
next
  case (Some old)
  with assms(1) obtain xs where "old = JList xs" by blast
  with Some assms(2) have "results' = AList.update dt (JList (xs @ (if truthy r then [r] else []))) results"
    by (simp add: table_search_accumulate_def)
  with assms(1) show ?thesis by (simp add: update_conv')
qed

lemma public_worker_keeps_lists:
  "table_search_worker ps JNull data_type_queries False st queue = Inr st' \<Longrightarrow>
   \<forall>k v. map_of (st_results st) k = Some v \<longrightarrow> (\<exists>xs. v = JList xs) \<Longrightarrow>
   \<forall>k v. map_of (st_results st') k = Some v \<longrightarrow> (\<exists>xs. v = JList xs)"
proof (induction queue arbitrary: st)
  case Nil
  then show ?case by simp
next
  case (Cons table_pair queue)
  obtain schema' req_opt where prep:
    "table_search_prepare JNull data_type_queries False (st_schema st) table_pair = (schema', req_opt)"
    by (cases "table_search_prepare JNull data_type_queries False (st_schema st) table_pair")
  show ?case
  proof (cases req_opt)
    case None
    with prep Cons.prems(1)
    have "table_search_worker ps JNull data_type_queries False (st\<lparr>st_schema := schema'\<rparr>) queue = Inr st'"
      by simp
    from Cons.IH[OF this] Cons.prems(2) show ?thesis by simp
  next
    case (Some req)
    have priv: "req_private req = False"
      using prep Some by (auto simp: table_search_prepare_def Let_def split: option.splits)
    from prep Some Cons.prems(1) obtain r where r: "table_search ps req = Inr r"
      by (cases "table_search ps req") simp_all
    from prep Some Cons.prems(1) r priv obtain results' where
      acc: "table_search_accumulate False (data_type (snd table_pair)) r (st_results st) = Inr results'"
      by (cases "table_search_accumulate False (data_type (snd table_pair)) r (st_results st)") simp_all
    from prep Some Cons.prems(1) r priv acc
    have step: "table_search_worker ps JNull data_type_queries False
             \<lparr>st_schema = schema', st_results = results', st_requests = st_requests st @ [req]\<rparr> queue
           = Inr st'" by simp
    from public_accumulate_keeps_lists[OF Cons.prems(2) acc] Cons.IH[OF step] show ?thesis by simp
  qed
qed

end
